theory Spec2Isabelle
  imports Main
begin

section \<open>The offline cache manager of \<^verbatim>\<open>sw.js\<close>\<close>

text \<open>
  A shallow embedding of the service worker \<^verbatim>\<open>src/sw.js\<close>: its constants, the
  install, activate and fetch listeners, and the three strategy handlers.
  The browser interfaces the worker calls (strings, URLs, promises, the Cache API,
  \<^verbatim>\<open>fetch\<close>) are modelled by small executable definitions; the worker's own
  functions keep the names and the branch order of the source.
\<close>

subsection \<open>Strings and URLs\<close>

definition startsWith :: "string \<Rightarrow> string \<Rightarrow> bool" where
  \<comment> \<open>\<^verbatim>\<open>s.startsWith(t)\<close>\<close>
  "startsWith s t = (take (length t) s = t)"

definition endsWith :: "string \<Rightarrow> string \<Rightarrow> bool" where
  \<comment> \<open>\<^verbatim>\<open>s.endsWith(t)\<close>\<close>
  "endsWith s t = (length t \<le> length s \<and> drop (length s - length t) s = t)"

definition match_ext :: "string list \<Rightarrow> string \<Rightarrow> bool" where
  \<comment> \<open>\<^verbatim>\<open>s.match(/\.(e1|e2|...)$/)\<close> as a truth value: the regular expression has no
      flags, so \<^verbatim>\<open>$\<close> is the end of the input, and it matches exactly when the
      string ends in a dot followed by one of the alternatives.\<close>
  "match_ext exts s = list_ex (\<lambda>e. endsWith s (CHR ''.'' # e)) exts"

definition url_rest :: "string \<Rightarrow> string" where
  \<comment> \<open>what follows \<^verbatim>\<open>scheme://\<close> in a serialized URL\<close>
  "url_rest u = drop 3 (dropWhile (\<lambda>c. c \<noteq> CHR '':'') u)"

definition url_origin :: "string \<Rightarrow> string" where
  \<comment> \<open>\<^verbatim>\<open>new URL(u).origin\<close> of a serialized http(s) URL: scheme, host and port\<close>
  "url_origin u =
     takeWhile (\<lambda>c. c \<noteq> CHR '':'') u @ ''://'' @
     takeWhile (\<lambda>c. c \<noteq> CHR ''/'' \<and> c \<noteq> CHR ''?'' \<and> c \<noteq> CHR ''#'') (url_rest u)"

definition url_pathname :: "string \<Rightarrow> string" where
  \<comment> \<open>\<^verbatim>\<open>new URL(u).pathname\<close> of a serialized http(s) URL: from the first slash
      after the authority up to the query or the fragment; never empty\<close>
  "url_pathname u =
     (let p = takeWhile (\<lambda>c. c \<noteq> CHR ''?'' \<and> c \<noteq> CHR ''#'')
                (dropWhile (\<lambda>c. c \<noteq> CHR ''/'' \<and> c \<noteq> CHR ''?'' \<and> c \<noteq> CHR ''#'') (url_rest u))
      in if p = [] then ''/'' else p)"

subsection \<open>Requests, responses, JavaScript values and promises\<close>

record request =
  "method" :: string
  url :: string
  mode :: string

record response =
  status :: nat
  headers :: "(string \<times> string) list"
  body :: string

text \<open>
  A promise is modelled by the way it settles: fulfilled with a value, rejected with a
  reason, or never settled. The values the handlers pass around are \<^verbatim>\<open>undefined\<close>,
  a \<^verbatim>\<open>Response\<close> object, and a promise object.
\<close>

datatype 'a settle = Fulfilled 'a | Rejected string | Pending

datatype jsval = Undefined | Resp response | PromiseObj "jsval settle"

fun truthy :: "jsval \<Rightarrow> bool" where
  \<comment> \<open>only \<^verbatim>\<open>undefined\<close> is falsy here; every object, a promise included, is truthy\<close>
  "truthy Undefined = False"
| "truthy (Resp r) = True"
| "truthy (PromiseObj p) = True"

definition js_or :: "jsval \<Rightarrow> jsval \<Rightarrow> jsval" where
  \<comment> \<open>\<^verbatim>\<open>a || b\<close>\<close>
  "js_or a b = (if truthy a then a else b)"

fun async_return :: "jsval \<Rightarrow> jsval settle" where
  \<comment> \<open>\<^verbatim>\<open>return v\<close> in an \<^verbatim>\<open>async\<close> function: the function's promise adopts the state
      of a returned promise, and is fulfilled with any other value\<close>
  "async_return (PromiseObj p) = p"
| "async_return v = Fulfilled v"

subsection \<open>Constants of the worker\<close>

definition CACHE_NAME :: string where
  "CACHE_NAME = ''mainstream-tinting-v1.2''"

definition OFFLINE_PAGE :: string where
  "OFFLINE_PAGE = ''/offline.html''"

datatype CACHE_STRATEGY = CACHE_FIRST | NETWORK_FIRST | STALE_WHILE_REVALIDATE

definition CACHE_FILES :: "string list" where
  "CACHE_FILES =
     [''/'', ''/index.html'', ''/residential.html'', ''/commercial.html'', ''/gallery.html'',
      ''/technology.html'', ''/about.html'', ''/areas-we-serve.html'', ''/removal.html'',
      ''/style.css'', ''/main.js'', ''/m-logo-new.webp'', ''/m-logo-new.png'',
      ''/favicon-96x96.png'', ''/favicon.svg'', ''/favicon.ico'', ''/site.webmanifest'',
      ''/robots.txt'']"

subsection \<open>Request classification\<close>

definition classify :: "string \<Rightarrow> CACHE_STRATEGY" where
  \<comment> \<open>the strategy chosen in the fetch listener from \<^verbatim>\<open>url.pathname\<close>\<close>
  "classify pathname =
     (if endsWith pathname ''.html'' then NETWORK_FIRST
      else if match_ext [''css'', ''js'', ''woff'', ''woff2'', ''ttf''] pathname then CACHE_FIRST
      else if match_ext [''jpg'', ''jpeg'', ''png'', ''gif'', ''webp'', ''svg'', ''ico'', ''mp4'']
                pathname then CACHE_FIRST
      else STALE_WHILE_REVALIDATE)"

subsection \<open>The environment and the state\<close>

text \<open>
  The environment of one event: the worker's own origin (\<^verbatim>\<open>self.location.origin\<close>) and
  the network, as the way \<^verbatim>\<open>fetch\<close> settles for each URL. A rejected fetch is a network
  failure; a fetch that never settles is \<open>Pending\<close>.
\<close>

record env =
  origin :: string
  network :: "string \<Rightarrow> response settle"

type_synonym bucket = "string \<rightharpoonup> response"

text \<open>
  What a strategy handler works on: the entries of the opened cache bucket, keyed by
  request URL, and the list of URLs requested from the network so far.
\<close>

record io =
  entries :: bucket
  net_log :: "string list"

text \<open>
  The worker's global state: the cache storage of the origin (bucket names in creation
  order, names unique), the network log, the console, and whether
  \<^verbatim>\<open>skipWaiting\<close> and \<^verbatim>\<open>clients.claim\<close> have been called.
\<close>

record world =
  caches :: "(string \<times> bucket) list"
  requests :: "string list"
  console :: "string list"
  skip_waiting :: bool
  clients_claimed :: bool

subsection \<open>Promise chaining\<close>

fun promise_then :: "'a settle \<times> 's \<Rightarrow> ('a \<Rightarrow> 's \<Rightarrow> 'b settle \<times> 's) \<Rightarrow> 'b settle \<times> 's" where
  \<comment> \<open>\<^verbatim>\<open>p.then(f)\<close>: \<open>f\<close> runs on fulfilment only; a rejection passes through\<close>
  "promise_then (Fulfilled v, s) f = f v s"
| "promise_then (Rejected e, s) f = (Rejected e, s)"
| "promise_then (Pending, s) f = (Pending, s)"

fun promise_catch :: "'a settle \<times> 's \<Rightarrow> (string \<Rightarrow> 's \<Rightarrow> 'a settle \<times> 's) \<Rightarrow> 'a settle \<times> 's" where
  \<comment> \<open>\<^verbatim>\<open>p.catch(g)\<close>: \<open>g\<close> runs on rejection only, and its result settles the chain\<close>
  "promise_catch (Fulfilled v, s) g = (Fulfilled v, s)"
| "promise_catch (Rejected e, s) g = g e s"
| "promise_catch (Pending, s) g = (Pending, s)"

subsection \<open>The Cache API and \<^verbatim>\<open>fetch\<close>\<close>

definition cache_lookup :: "bucket \<Rightarrow> string \<Rightarrow> jsval" where
  \<comment> \<open>the value \<^verbatim>\<open>cache.match(k)\<close> is fulfilled with: the entry, or \<^verbatim>\<open>undefined\<close>\<close>
  "cache_lookup c k = (case c k of None \<Rightarrow> Undefined | Some r \<Rightarrow> Resp r)"

definition cache_match :: "bucket \<Rightarrow> string \<Rightarrow> jsval" where
  \<comment> \<open>\<^verbatim>\<open>cache.match(k)\<close> itself: a promise object\<close>
  "cache_match c k = PromiseObj (Fulfilled (cache_lookup c k))"

definition cache_put :: "string \<Rightarrow> response \<Rightarrow> io \<Rightarrow> io" where
  \<comment> \<open>\<^verbatim>\<open>cache.put(request, response.clone())\<close>: the entry under the request's URL is
      added or overwritten. The source does not await the write; the state returned is
      the one reached when the write has taken effect.\<close>
  "cache_put k r s = s\<lparr>entries := (entries s)(k \<mapsto> r)\<rparr>"

definition fetch :: "env \<Rightarrow> request \<Rightarrow> io \<Rightarrow> response settle \<times> io" where
  \<comment> \<open>\<^verbatim>\<open>fetch(request)\<close>: the request goes to the network and is logged\<close>
  "fetch e request s = (network e (url request), s\<lparr>net_log := net_log s @ [url request]\<rparr>)"

definition path_key :: "env \<Rightarrow> string \<Rightarrow> string" where
  \<comment> \<open>the URL a root-relative path names when the worker passes it to the Cache API\<close>
  "path_key e p = origin e @ p"

subsection \<open>The strategy handlers\<close>

definition offline_notice :: response where
  "offline_notice =
     \<lparr>status = 200, headers = [(''Content-Type'', ''text/html'')],
      body = ''Offline - Please check your connection''\<rparr>"

definition network_error :: response where
  "network_error =
     \<lparr>status = 408, headers = [(''Content-Type'', ''text/plain'')], body = ''Network error''\<rparr>"

definition on_network_failure :: "env \<Rightarrow> request \<Rightarrow> bucket \<Rightarrow> jsval settle" where
  \<comment> \<open>the body of the \<^verbatim>\<open>catch (error)\<close> block, the same text in all three handlers\<close>
  "on_network_failure e request c =
     (if mode request = ''navigate''
      then async_return
             (js_or (cache_match c (path_key e OFFLINE_PAGE))
               (js_or (cache_match c (path_key e ''/index.html'')) (Resp offline_notice)))
      else Fulfilled (Resp network_error))"

definition store_if_200 :: "request \<Rightarrow> response \<Rightarrow> io \<Rightarrow> io" where
  \<comment> \<open>\<^verbatim>\<open>if (response.status === 200) { cache.put(request, response.clone()); }\<close>\<close>
  "store_if_200 request r s = (if status r = 200 then cache_put (url request) r s else s)"

definition handleCacheFirst :: "env \<Rightarrow> request \<Rightarrow> io \<Rightarrow> jsval settle \<times> io" where
  "handleCacheFirst e request s =
     (let cached = cache_lookup (entries s) (url request) in
      if truthy cached then (Fulfilled cached, s)
      else
        (case fetch e request s of
           (Fulfilled r, s1) \<Rightarrow> (Fulfilled (Resp r), store_if_200 request r s1)
         | (Rejected error, s1) \<Rightarrow> (on_network_failure e request (entries s1), s1)
         | (Pending, s1) \<Rightarrow> (Pending, s1)))"

definition handleNetworkFirst :: "env \<Rightarrow> request \<Rightarrow> io \<Rightarrow> jsval settle \<times> io" where
  "handleNetworkFirst e request s =
     (case fetch e request s of
        (Fulfilled r, s1) \<Rightarrow> (Fulfilled (Resp r), store_if_200 request r s1)
      | (Rejected error, s1) \<Rightarrow>
          (let cached = cache_lookup (entries s1) (url request) in
           if truthy cached then (Fulfilled cached, s1)
           else (on_network_failure e request (entries s1), s1))
      | (Pending, s1) \<Rightarrow> (Pending, s1))"

definition handleStaleWhileRevalidate :: "env \<Rightarrow> request \<Rightarrow> io \<Rightarrow> jsval settle \<times> io" where
  "handleStaleWhileRevalidate e request s =
     (let cached = cache_lookup (entries s) (url request);
          (fetchPromise, s1) =
            promise_catch
              (promise_then (fetch e request s)
                 (\<lambda>r t. (Fulfilled (Resp r), store_if_200 request r t)))
              (\<lambda>error t. (Fulfilled Undefined, t))
      in if truthy cached then (Fulfilled cached, s1)
         else
           (case fetchPromise of
              Fulfilled v \<Rightarrow> (Fulfilled v, s1)
            | Rejected error \<Rightarrow> (on_network_failure e request (entries s1), s1)
            | Pending \<Rightarrow> (Pending, s1)))"

subsection \<open>Cache storage\<close>

definition caches_keys :: "world \<Rightarrow> string list" where
  \<comment> \<open>\<^verbatim>\<open>caches.keys()\<close>\<close>
  "caches_keys w = map fst (caches w)"

definition caches_open :: "string \<Rightarrow> world \<Rightarrow> world" where
  \<comment> \<open>\<^verbatim>\<open>caches.open(name)\<close>: the bucket is created, empty, when there is none\<close>
  "caches_open name w =
     (if name \<in> set (caches_keys w) then w
      else w\<lparr>caches := caches w @ [(name, Map.empty)]\<rparr>)"

definition caches_delete :: "string \<Rightarrow> world \<Rightarrow> world" where
  \<comment> \<open>\<^verbatim>\<open>caches.delete(name)\<close>\<close>
  "caches_delete name w = w\<lparr>caches := filter (\<lambda>nb. fst nb \<noteq> name) (caches w)\<rparr>"

definition bucket_of :: "string \<Rightarrow> world \<Rightarrow> bucket" where
  \<comment> \<open>the entries of the named bucket; no entries when there is no such bucket\<close>
  "bucket_of name w = (case map_of (caches w) name of None \<Rightarrow> Map.empty | Some b \<Rightarrow> b)"

definition set_bucket :: "string \<Rightarrow> bucket \<Rightarrow> world \<Rightarrow> world" where
  "set_bucket name b w =
     w\<lparr>caches := map (\<lambda>nb. if fst nb = name then (name, b) else nb) (caches w)\<rparr>"

definition console_log :: "string \<Rightarrow> world \<Rightarrow> world" where
  "console_log msg w = w\<lparr>console := console w @ [msg]\<rparr>"

subsection \<open>Dispatch and the fetch listener\<close>

definition run_handler :: "CACHE_STRATEGY \<Rightarrow> env \<Rightarrow> request \<Rightarrow> io \<Rightarrow> jsval settle \<times> io" where
  \<comment> \<open>the \<^verbatim>\<open>switch (strategy)\<close> of \<^verbatim>\<open>handleRequest\<close>\<close>
  "run_handler strategy e request s =
     (case strategy of
        CACHE_FIRST \<Rightarrow> handleCacheFirst e request s
      | NETWORK_FIRST \<Rightarrow> handleNetworkFirst e request s
      | STALE_WHILE_REVALIDATE \<Rightarrow> handleStaleWhileRevalidate e request s)"

definition strategy_of :: "request \<Rightarrow> CACHE_STRATEGY" where
  \<comment> \<open>\<^verbatim>\<open>const url = new URL(event.request.url)\<close> and the strategy chosen from
      \<^verbatim>\<open>url.pathname\<close>\<close>
  "strategy_of request = classify (url_pathname (url request))"

definition handleRequest :: "env \<Rightarrow> request \<Rightarrow> CACHE_STRATEGY \<Rightarrow> world \<Rightarrow> jsval settle \<times> world" where
  \<comment> \<open>opens the current bucket, runs the handler on it, and the handler's writes and
      network requests become part of the global state\<close>
  "handleRequest e request strategy w =
     (let w1 = caches_open CACHE_NAME w;
          (p, s) = run_handler strategy e request
                     \<lparr>entries = bucket_of CACHE_NAME w1, net_log = requests w1\<rparr>
      in (p, (set_bucket CACHE_NAME (entries s) w1)\<lparr>requests := net_log s\<rparr>))"

definition on_fetch :: "env \<Rightarrow> request \<Rightarrow> world \<Rightarrow> jsval settle option \<times> world" where
  \<comment> \<open>the fetch listener; \<open>None\<close>: it returned without \<^verbatim>\<open>event.respondWith\<close>, and the
      browser handles the request as if there were no worker\<close>
  "on_fetch e request w =
     (if method request \<noteq> ''GET'' then (None, w)
      else if \<not> startsWith (url request) (origin e) then (None, w)
      else
        (let strategy = strategy_of request;
             (p, w1) = handleRequest e request strategy w
         in (Some p, w1)))"

subsection \<open>The install and activate listeners\<close>

definition ok_status :: "response \<Rightarrow> bool" where
  \<comment> \<open>\<^verbatim>\<open>response.ok\<close>\<close>
  "ok_status r = (200 \<le> status r \<and> status r \<le> 299)"

fun add_failed :: "response settle \<Rightarrow> bool" where
  \<comment> \<open>a fetch that makes \<^verbatim>\<open>cache.addAll\<close> reject: a network failure or a status that is
      not a success\<close>
  "add_failed (Fulfilled r) = (\<not> ok_status r)"
| "add_failed (Rejected error) = True"
| "add_failed Pending = False"

fun store_fetched :: "env \<Rightarrow> string \<Rightarrow> bucket \<Rightarrow> bucket" where
  "store_fetched e k b = (case network e k of Fulfilled r \<Rightarrow> b(k \<mapsto> r) | Rejected error \<Rightarrow> b | Pending \<Rightarrow> b)"

definition cache_addAll :: "env \<Rightarrow> string \<Rightarrow> string list \<Rightarrow> world \<Rightarrow> jsval settle \<times> world" where
  \<comment> \<open>\<^verbatim>\<open>cache.addAll(urls)\<close> on the named bucket: every URL is requested; when one
      request fails nothing is stored and the promise rejects; otherwise every
      response is stored\<close>
  "cache_addAll e name urls w =
     (let keys = map (path_key e) urls;
          w1 = w\<lparr>requests := requests w @ keys\<rparr>
      in if list_ex (\<lambda>k. add_failed (network e k)) keys then (Rejected ''TypeError'', w1)
         else if list_ex (\<lambda>k. network e k = Pending) keys then (Pending, w1)
         else (Fulfilled Undefined,
               set_bucket name (fold (store_fetched e) keys (bucket_of name w1)) w1))"

definition install :: "env \<Rightarrow> world \<Rightarrow> jsval settle \<times> world" where
  \<comment> \<open>the install listener; the result is the promise passed to \<^verbatim>\<open>event.waitUntil\<close>\<close>
  "install e w =
     promise_catch
       (promise_then
          (promise_then
             (Fulfilled CACHE_NAME, caches_open CACHE_NAME (console_log ''Service Worker: Installing...'' w))
             (\<lambda>cache t. cache_addAll e cache CACHE_FILES
                           (console_log ''Service Worker: Caching essential files'' t)))
          (\<lambda>v t. (Fulfilled Undefined,
                   (console_log ''Service Worker: Installation complete'' t)\<lparr>skip_waiting := True\<rparr>)))
       (\<lambda>error t. (Fulfilled Undefined, console_log ''Service Worker: Installation failed'' t))"

datatype install_phase = Installed | Install_failed | Installing

fun waitUntil_install :: "'a settle \<Rightarrow> install_phase" where
  \<comment> \<open>what the browser does with the promise the install listener passed to
      \<^verbatim>\<open>event.waitUntil\<close>: the install step fails exactly when the promise rejects\<close>
  "waitUntil_install (Fulfilled v) = Installed"
| "waitUntil_install (Rejected error) = Install_failed"
| "waitUntil_install Pending = Installing"

definition delete_old :: "string \<Rightarrow> world \<Rightarrow> world" where
  \<comment> \<open>the function mapped over \<^verbatim>\<open>cacheNames\<close> in the activate listener\<close>
  "delete_old cacheName w =
     (if cacheName \<noteq> CACHE_NAME
      then caches_delete cacheName
             (console_log (''Service Worker: Deleting old cache '' @ cacheName) w)
      else w)"

definition activate :: "world \<Rightarrow> jsval settle \<times> world" where
  \<comment> \<open>the activate listener; the result is the promise passed to \<^verbatim>\<open>event.waitUntil\<close>\<close>
  "activate w =
     promise_then
       (promise_then
          (let w0 = console_log ''Service Worker: Activating...'' w in (Fulfilled (caches_keys w0), w0))
          (\<lambda>cacheNames t. (Fulfilled Undefined, fold delete_old cacheNames t)))
       (\<lambda>v t. (Fulfilled Undefined,
                (console_log ''Service Worker: Activation complete'' t)\<lparr>clients_claimed := True\<rparr>))"

definition app_bucket :: "string \<Rightarrow> bool" where
  \<comment> \<open>a bucket name with the naming prefix of this application\<close>
  "app_bucket name = startsWith name ''mainstream-tinting-''"

section \<open>Request classification\<close>

lemma endsWith_last: "endsWith s t \<Longrightarrow> t \<noteq> [] \<Longrightarrow> last s = last t"
proof -
  assume a: "endsWith s t" and n: "t \<noteq> []"
  from a have "drop (length s - length t) s = t" by (simp add: endsWith_def)
  then have "s = take (length s - length t) s @ t" by (metis append_take_drop_id)
  then have "last s = last (take (length s - length t) s @ t)" by simp
  with n show ?thesis by simp
qed

lemma endsWith_html_last: "endsWith p ''.html'' \<Longrightarrow> last p = CHR ''l''"
  by (drule endsWith_last) simp_all

lemma match_ext_styles:
  "match_ext [''css'', ''js'', ''woff'', ''woff2'', ''ttf''] p =
     (endsWith p ''.css'' \<or> endsWith p ''.js'' \<or> endsWith p ''.woff'' \<or> endsWith p ''.woff2''
      \<or> endsWith p ''.ttf'')"
  by (simp add: match_ext_def)

lemma match_ext_media:
  "match_ext [''jpg'', ''jpeg'', ''png'', ''gif'', ''webp'', ''svg'', ''ico'', ''mp4''] p =
     (endsWith p ''.jpg'' \<or> endsWith p ''.jpeg'' \<or> endsWith p ''.png'' \<or> endsWith p ''.gif''
      \<or> endsWith p ''.webp'' \<or> endsWith p ''.svg'' \<or> endsWith p ''.ico'' \<or> endsWith p ''.mp4'')"
  by (simp add: match_ext_def)

lemma not_html_styles:
  "endsWith p ''.css'' \<or> endsWith p ''.js'' \<or> endsWith p ''.woff'' \<or> endsWith p ''.woff2''
      \<or> endsWith p ''.ttf'' \<Longrightarrow> \<not> endsWith p ''.html''"
  by (auto dest!: endsWith_last)

lemma not_html_media:
  "endsWith p ''.jpg'' \<or> endsWith p ''.jpeg'' \<or> endsWith p ''.png'' \<or> endsWith p ''.gif''
      \<or> endsWith p ''.webp'' \<or> endsWith p ''.svg'' \<or> endsWith p ''.ico'' \<or> endsWith p ''.mp4''
   \<Longrightarrow> \<not> endsWith p ''.html''"
  by (auto dest!: endsWith_last)

text \<open>
  Claim C1, as the code has it. The strategy of an intercepted request is a function of
  the path of its URL alone (neither the method nor the navigation mode enters): a path
  ending in \<^verbatim>\<open>.html\<close> is NETWORK_FIRST; a path ending in \<^verbatim>\<open>.css\<close>, \<^verbatim>\<open>.js\<close>,
  \<^verbatim>\<open>.woff\<close>, \<^verbatim>\<open>.woff2\<close> or \<^verbatim>\<open>.ttf\<close> is CACHE_FIRST; a path ending in \<^verbatim>\<open>.jpg\<close>,
  \<^verbatim>\<open>.jpeg\<close>, \<^verbatim>\<open>.png\<close>, \<^verbatim>\<open>.gif\<close>, \<^verbatim>\<open>.webp\<close>, \<^verbatim>\<open>.svg\<close>, \<^verbatim>\<open>.ico\<close> or \<^verbatim>\<open>.mp4\<close> is
  CACHE_FIRST; every other path, the path of a bare navigation such as \<^verbatim>\<open>/\<close> included,
  is STALE_WHILE_REVALIDATE; and a same-origin GET request is answered by
  \<^verbatim>\<open>handleRequest\<close> with that strategy.
\<close>

theorem classification_by_extension:
  "(endsWith (url_pathname (url rq)) ''.html'' \<longrightarrow> strategy_of rq = NETWORK_FIRST) \<and>
   (endsWith (url_pathname (url rq)) ''.css'' \<or> endsWith (url_pathname (url rq)) ''.js'' \<or>
    endsWith (url_pathname (url rq)) ''.woff'' \<or> endsWith (url_pathname (url rq)) ''.woff2'' \<or>
    endsWith (url_pathname (url rq)) ''.ttf'' \<longrightarrow> strategy_of rq = CACHE_FIRST) \<and>
   (endsWith (url_pathname (url rq)) ''.jpg'' \<or> endsWith (url_pathname (url rq)) ''.jpeg'' \<or>
    endsWith (url_pathname (url rq)) ''.png'' \<or> endsWith (url_pathname (url rq)) ''.gif'' \<or>
    endsWith (url_pathname (url rq)) ''.webp'' \<or> endsWith (url_pathname (url rq)) ''.svg'' \<or>
    endsWith (url_pathname (url rq)) ''.ico'' \<or> endsWith (url_pathname (url rq)) ''.mp4''
      \<longrightarrow> strategy_of rq = CACHE_FIRST) \<and>
   (\<not> list_ex (endsWith (url_pathname (url rq)))
        [''.html'', ''.css'', ''.js'', ''.woff'', ''.woff2'', ''.ttf'', ''.jpg'', ''.jpeg'', ''.png'',
         ''.gif'', ''.webp'', ''.svg'', ''.ico'', ''.mp4'']
      \<longrightarrow> strategy_of rq = STALE_WHILE_REVALIDATE) \<and>
   strategy_of (rq\<lparr>method := m, mode := md\<rparr>) = strategy_of rq \<and>
   (method rq = ''GET'' \<and> startsWith (url rq) (origin e)
      \<longrightarrow> fst (on_fetch e rq w) = Some (fst (handleRequest e rq (strategy_of rq) w)))"
proof (intro conjI impI)
  assume "endsWith (url_pathname (url rq)) ''.html''"
  then show "strategy_of rq = NETWORK_FIRST" by (simp add: strategy_of_def classify_def)
next
  assume a: "endsWith (url_pathname (url rq)) ''.css'' \<or> endsWith (url_pathname (url rq)) ''.js'' \<or>
    endsWith (url_pathname (url rq)) ''.woff'' \<or> endsWith (url_pathname (url rq)) ''.woff2'' \<or>
    endsWith (url_pathname (url rq)) ''.ttf''"
  from not_html_styles [OF a] a show "strategy_of rq = CACHE_FIRST"
    by (simp only: strategy_of_def classify_def match_ext_styles if_True if_False)
next
  assume a: "endsWith (url_pathname (url rq)) ''.jpg'' \<or> endsWith (url_pathname (url rq)) ''.jpeg'' \<or>
    endsWith (url_pathname (url rq)) ''.png'' \<or> endsWith (url_pathname (url rq)) ''.gif'' \<or>
    endsWith (url_pathname (url rq)) ''.webp'' \<or> endsWith (url_pathname (url rq)) ''.svg'' \<or>
    endsWith (url_pathname (url rq)) ''.ico'' \<or> endsWith (url_pathname (url rq)) ''.mp4''"
  from not_html_media [OF a] a show "strategy_of rq = CACHE_FIRST"
    by (simp add: strategy_of_def classify_def match_ext_media)
next
  assume "\<not> list_ex (endsWith (url_pathname (url rq)))
        [''.html'', ''.css'', ''.js'', ''.woff'', ''.woff2'', ''.ttf'', ''.jpg'', ''.jpeg'', ''.png'',
         ''.gif'', ''.webp'', ''.svg'', ''.ico'', ''.mp4'']"
  then show "strategy_of rq = STALE_WHILE_REVALIDATE"
    by (simp add: strategy_of_def classify_def match_ext_def)
next
  show "strategy_of (rq\<lparr>method := m, mode := md\<rparr>) = strategy_of rq"
    by (simp add: strategy_of_def)
next
  assume "method rq = ''GET'' \<and> startsWith (url rq) (origin e)"
  then show "fst (on_fetch e rq w) = Some (fst (handleRequest e rq (strategy_of rq) w))"
    by (simp add: on_fetch_def Let_def split: prod.splits)
qed

text \<open>
  Claim C1 as stated fails: a bare navigation to the home page \<^verbatim>\<open>/\<close> is not classified
  NETWORK_FIRST.
\<close>

theorem bare_navigation_counterexample:
  "mode \<lparr>method = ''GET'', url = ''https://example.com/'', mode = ''navigate''\<rparr> = ''navigate'' \<and>
   url_pathname (url \<lparr>method = ''GET'', url = ''https://example.com/'', mode = ''navigate''\<rparr>) = ''/'' \<and>
   strategy_of \<lparr>method = ''GET'', url = ''https://example.com/'', mode = ''navigate''\<rparr> \<noteq> NETWORK_FIRST"
  by (simp add: strategy_of_def classify_def url_pathname_def url_rest_def endsWith_def match_ext_def)


text \<open>
  The theorem at four requests of the site: a page, a font, an image and the web
  manifest.
\<close>

theorem classification_by_extension_witness:
  "endsWith (url_pathname ''https://example.com/about.html'') ''.html'' \<and>
   strategy_of \<lparr>method = ''GET'', url = ''https://example.com/about.html'', mode = ''navigate''\<rparr>
     = NETWORK_FIRST \<and>
   endsWith (url_pathname ''https://example.com/fonts/inter.woff2'') ''.woff2'' \<and>
   strategy_of \<lparr>method = ''GET'', url = ''https://example.com/fonts/inter.woff2'', mode = ''cors''\<rparr>
     = CACHE_FIRST \<and>
   endsWith (url_pathname ''https://example.com/m-logo-new.webp'') ''.webp'' \<and>
   strategy_of \<lparr>method = ''GET'', url = ''https://example.com/m-logo-new.webp'', mode = ''no-cors''\<rparr>
     = CACHE_FIRST \<and>
   \<not> list_ex (endsWith (url_pathname ''https://example.com/site.webmanifest''))
        [''.html'', ''.css'', ''.js'', ''.woff'', ''.woff2'', ''.ttf'', ''.jpg'', ''.jpeg'', ''.png'',
         ''.gif'', ''.webp'', ''.svg'', ''.ico'', ''.mp4''] \<and>
   strategy_of \<lparr>method = ''GET'', url = ''https://example.com/site.webmanifest'', mode = ''cors''\<rparr>
     = STALE_WHILE_REVALIDATE \<and>
   startsWith ''https://example.com/about.html'' ''https://example.com'' \<and>
   fst (on_fetch \<lparr>origin = ''https://example.com'', network = (\<lambda>u. Rejected ''offline'')\<rparr>
          \<lparr>method = ''GET'', url = ''https://example.com/about.html'', mode = ''navigate''\<rparr>
          \<lparr>caches = [], requests = [], console = [], skip_waiting = False, clients_claimed = False\<rparr>)
     = Some (fst (handleRequest \<lparr>origin = ''https://example.com'', network = (\<lambda>u. Rejected ''offline'')\<rparr>
          \<lparr>method = ''GET'', url = ''https://example.com/about.html'', mode = ''navigate''\<rparr>
          NETWORK_FIRST
          \<lparr>caches = [], requests = [], console = [], skip_waiting = False, clients_claimed = False\<rparr>))"
proof -
  let ?a = "\<lparr>method = ''GET'', url = ''https://example.com/about.html'', mode = ''navigate''\<rparr>"
  let ?b = "\<lparr>method = ''GET'', url = ''https://example.com/fonts/inter.woff2'', mode = ''cors''\<rparr>"
  let ?c = "\<lparr>method = ''GET'', url = ''https://example.com/m-logo-new.webp'', mode = ''no-cors''\<rparr>"
  let ?d = "\<lparr>method = ''GET'', url = ''https://example.com/site.webmanifest'', mode = ''cors''\<rparr>"
  let ?e = "\<lparr>origin = ''https://example.com'', network = (\<lambda>u. Rejected ''offline'')\<rparr>"
  let ?w = "\<lparr>caches = [], requests = [], console = [], skip_waiting = False, clients_claimed = False\<rparr>"
  have ha: "endsWith (url_pathname (url ?a)) ''.html''"
    by (simp add: url_pathname_def url_rest_def endsWith_def)
  have hb: "endsWith (url_pathname (url ?b)) ''.woff2''"
    by (simp add: url_pathname_def url_rest_def endsWith_def)
  have hc: "endsWith (url_pathname (url ?c)) ''.webp''"
    by (simp add: url_pathname_def url_rest_def endsWith_def)
  have hd: "\<not> list_ex (endsWith (url_pathname (url ?d)))
        [''.html'', ''.css'', ''.js'', ''.woff'', ''.woff2'', ''.ttf'', ''.jpg'', ''.jpeg'', ''.png'',
         ''.gif'', ''.webp'', ''.svg'', ''.ico'', ''.mp4'']"
    by (simp add: url_pathname_def url_rest_def endsWith_def)
  have he: "method ?a = ''GET'' \<and> startsWith (url ?a) (origin ?e)"
    by (simp add: startsWith_def)
  have ca: "strategy_of ?a = NETWORK_FIRST"
    using classification_by_extension [where rq = ?a] ha by blast
  have cb: "strategy_of ?b = CACHE_FIRST"
    using classification_by_extension [where rq = ?b] hb by blast
  have cc: "strategy_of ?c = CACHE_FIRST"
    using classification_by_extension [where rq = ?c] hc by blast
  have cd: "strategy_of ?d = STALE_WHILE_REVALIDATE"
    using classification_by_extension [where rq = ?d] hd by blast
  have ce: "fst (on_fetch ?e ?a ?w) = Some (fst (handleRequest ?e ?a (strategy_of ?a) ?w))"
    using classification_by_extension [where rq = ?a and e = ?e and w = ?w] he by blast
  from ha hb hc hd he ca cb cc cd ce show ?thesis by simp
qed

section \<open>Bucket lifecycle\<close>

lemma caches_console_log: "caches (console_log msg w) = caches w"
  by (simp add: console_log_def)

lemma caches_keys_console_log: "caches_keys (console_log msg w) = caches_keys w"
  by (simp add: caches_keys_def caches_console_log)

lemma caches_delete_old:
  "caches (delete_old n w) = filter (\<lambda>nb. fst nb = CACHE_NAME \<or> fst nb \<noteq> n) (caches w)"
proof (cases "n = CACHE_NAME")
  case True
  then show ?thesis by (simp add: delete_old_def)
next
  case False
  have "filter (\<lambda>nb. fst nb \<noteq> n) (caches w)
          = filter (\<lambda>nb. fst nb = CACHE_NAME \<or> fst nb \<noteq> n) (caches w)"
    using False by (intro filter_cong) auto
  with False show ?thesis
    by (simp add: delete_old_def caches_delete_def caches_console_log)
qed

lemma caches_fold_delete_old:
  "caches (fold delete_old names w)
     = filter (\<lambda>nb. fst nb = CACHE_NAME \<or> fst nb \<notin> set names) (caches w)"
proof (induction names arbitrary: w)
  case Nil
  then show ?case by simp
next
  case (Cons n names)
  have "caches (fold delete_old (n # names) w)
          = filter (\<lambda>nb. fst nb = CACHE_NAME \<or> fst nb \<notin> set names) (caches (delete_old n w))"
    by (simp add: Cons.IH)
  also have "\<dots> = filter (\<lambda>nb. fst nb = CACHE_NAME \<or> fst nb \<notin> set (n # names)) (caches w)"
    unfolding caches_delete_old filter_filter by (intro filter_cong) auto
  finally show ?case .
qed

lemma activate_unfold:
  "activate w =
     (Fulfilled Undefined,
      (console_log ''Service Worker: Activation complete''
         (fold delete_old (caches_keys w) (console_log ''Service Worker: Activating...'' w)))
      \<lparr>clients_claimed := True\<rparr>)"
  by (simp add: activate_def Let_def caches_keys_console_log)

lemma caches_activate:
  "caches (snd (activate w)) = filter (\<lambda>nb. fst nb = CACHE_NAME) (caches w)"
proof -
  have "caches (snd (activate w))
          = filter (\<lambda>nb. fst nb = CACHE_NAME \<or> fst nb \<notin> set (caches_keys w)) (caches w)"
    by (simp add: activate_unfold caches_console_log caches_fold_delete_old)
  also have "\<dots> = filter (\<lambda>nb. fst nb = CACHE_NAME) (caches w)"
    by (intro filter_cong) (auto simp: caches_keys_def)
  finally show ?thesis .
qed

lemma caches_keys_activate:
  "caches_keys (snd (activate w)) = filter (\<lambda>n. n = CACHE_NAME) (caches_keys w)"
  by (simp add: caches_keys_def caches_activate filter_map comp_def)

lemma filter_eq_distinct: "distinct xs \<Longrightarrow> length (filter (\<lambda>n. n = a) xs) \<le> 1"
  by (induction xs) (auto simp: filter_empty_conv)

lemma filter_eq_member: "distinct xs \<Longrightarrow> a \<in> set xs \<Longrightarrow> filter (\<lambda>n. n = a) xs = [a]"
  by (induction xs) (auto simp: filter_empty_conv)

lemma caches_keys_set_bucket: "caches_keys (set_bucket name b w) = caches_keys w"
  by (simp add: caches_keys_def set_bucket_def comp_def)

lemma caches_keys_cache_addAll:
  "caches_keys (snd (cache_addAll e name urls w)) = caches_keys w"
  by (simp add: cache_addAll_def Let_def caches_keys_set_bucket) (simp add: caches_keys_def)

lemma caches_keys_install:
  "caches_keys (snd (install e w)) = caches_keys (caches_open CACHE_NAME w)"
proof -
  let ?w1 = "console_log ''Service Worker: Caching essential files''
               (caches_open CACHE_NAME (console_log ''Service Worker: Installing...'' w))"
  have k: "caches_keys ?w1 = caches_keys (caches_open CACHE_NAME w)"
    by (simp add: caches_keys_console_log) (simp add: caches_keys_def caches_open_def console_log_def)
  obtain p w2 where r: "cache_addAll e CACHE_NAME CACHE_FILES ?w1 = (p, w2)"
    by (cases "cache_addAll e CACHE_NAME CACHE_FILES ?w1")
  then have "caches_keys w2 = caches_keys ?w1"
    using caches_keys_cache_addAll [of e CACHE_NAME CACHE_FILES ?w1] by simp
  with k have k2: "caches_keys w2 = caches_keys (caches_open CACHE_NAME w)" by simp
  show ?thesis
    using r k2 by (cases p) (simp_all add: install_def caches_keys_def console_log_def)
qed

lemma caches_keys_caches_open:
  "distinct (caches_keys w) \<Longrightarrow>
     distinct (caches_keys (caches_open name w)) \<and> name \<in> set (caches_keys (caches_open name w))"
  by (auto simp: caches_open_def caches_keys_def)

text \<open>
  Claim C5, as the code has it. The activate listener completes; it deletes every bucket
  whose name differs from the current version's bucket name and leaves the current
  bucket as it was; afterwards at most one bucket with the application's prefix exists,
  and exactly one, the current bucket, when the current bucket was in storage before
  (as it is after the install listener, which opens it).
\<close>

theorem activate_purges_stale_buckets:
  "fst (activate w) = Fulfilled Undefined \<and>
   caches (snd (activate w)) = filter (\<lambda>nb. fst nb = CACHE_NAME) (caches w) \<and>
   (\<forall>name. name \<noteq> CACHE_NAME \<longrightarrow> name \<notin> set (caches_keys (snd (activate w)))) \<and>
   (distinct (caches_keys w) \<longrightarrow>
      length (filter app_bucket (caches_keys (snd (activate w)))) \<le> 1) \<and>
   (distinct (caches_keys w) \<and> CACHE_NAME \<in> set (caches_keys w) \<longrightarrow>
      filter app_bucket (caches_keys (snd (activate w))) = [CACHE_NAME] \<and>
      caches_keys (snd (activate w)) = [CACHE_NAME]) \<and>
   (distinct (caches_keys w) \<longrightarrow>
      caches_keys (snd (activate (snd (install e w)))) = [CACHE_NAME])"
proof (intro conjI allI impI)
  show "fst (activate w) = Fulfilled Undefined" by (simp add: activate_unfold)
next
  show "caches (snd (activate w)) = filter (\<lambda>nb. fst nb = CACHE_NAME) (caches w)"
    by (rule caches_activate)
next
  fix name assume "name \<noteq> CACHE_NAME"
  then show "name \<notin> set (caches_keys (snd (activate w)))"
    by (simp add: caches_keys_activate)
next
  assume d: "distinct (caches_keys w)"
  have "length (filter app_bucket (caches_keys (snd (activate w))))
          \<le> length (caches_keys (snd (activate w)))"
    by (rule length_filter_le)
  also have "\<dots> \<le> 1"
    unfolding caches_keys_activate using d by (rule filter_eq_distinct)
  finally show "length (filter app_bucket (caches_keys (snd (activate w)))) \<le> 1" .
next
  assume a: "distinct (caches_keys w) \<and> CACHE_NAME \<in> set (caches_keys w)"
  then have k: "caches_keys (snd (activate w)) = [CACHE_NAME]"
    by (simp add: caches_keys_activate filter_eq_member)
  have "app_bucket CACHE_NAME" by (simp add: app_bucket_def CACHE_NAME_def startsWith_def)
  with k show "filter app_bucket (caches_keys (snd (activate w))) = [CACHE_NAME]" by simp
  from k show "caches_keys (snd (activate w)) = [CACHE_NAME]" .
next
  assume d: "distinct (caches_keys w)"
  from caches_keys_caches_open [OF d, of CACHE_NAME]
  have "distinct (caches_keys (snd (install e w)))"
    and "CACHE_NAME \<in> set (caches_keys (snd (install e w)))"
    by (simp_all add: caches_keys_install)
  then show "caches_keys (snd (activate (snd (install e w)))) = [CACHE_NAME]"
    by (simp add: caches_keys_activate filter_eq_member)
qed

text \<open>
  The theorem on a storage seeded with the bucket of an old version and the current
  bucket: only the current bucket remains.
\<close>

theorem activate_purges_stale_buckets_witness:
  "distinct (caches_keys
      \<lparr>caches = [(''mainstream-tinting-v1.1'', Map.empty), (''mainstream-tinting-v1.2'', Map.empty)],
       requests = [], console = [], skip_waiting = True, clients_claimed = False\<rparr>) \<and>
   CACHE_NAME \<in> set (caches_keys
      \<lparr>caches = [(''mainstream-tinting-v1.1'', Map.empty), (''mainstream-tinting-v1.2'', Map.empty)],
       requests = [], console = [], skip_waiting = True, clients_claimed = False\<rparr>) \<and>
   ''mainstream-tinting-v1.1'' \<noteq> CACHE_NAME \<and>
   ''mainstream-tinting-v1.1'' \<notin> set (caches_keys (snd (activate
      \<lparr>caches = [(''mainstream-tinting-v1.1'', Map.empty), (''mainstream-tinting-v1.2'', Map.empty)],
       requests = [], console = [], skip_waiting = True, clients_claimed = False\<rparr>))) \<and>
   filter app_bucket (caches_keys (snd (activate
      \<lparr>caches = [(''mainstream-tinting-v1.1'', Map.empty), (''mainstream-tinting-v1.2'', Map.empty)],
       requests = [], console = [], skip_waiting = True, clients_claimed = False\<rparr>)))
     = [''mainstream-tinting-v1.2''] \<and>
   caches_keys (snd (activate (snd (install \<lparr>origin = ''https://example.com'', network = (\<lambda>u. Pending)\<rparr>
      \<lparr>caches = [(''mainstream-tinting-v1.1'', Map.empty), (''mainstream-tinting-v1.2'', Map.empty)],
       requests = [], console = [], skip_waiting = True, clients_claimed = False\<rparr>))))
     = [''mainstream-tinting-v1.2'']"
proof -
  let ?w = "\<lparr>caches = [(''mainstream-tinting-v1.1'', Map.empty), (''mainstream-tinting-v1.2'', Map.empty)],
       requests = [], console = [], skip_waiting = True, clients_claimed = False\<rparr>"
  have d: "distinct (caches_keys ?w)" by (simp add: caches_keys_def)
  have m: "CACHE_NAME \<in> set (caches_keys ?w)" by (simp add: caches_keys_def CACHE_NAME_def)
  have n: "''mainstream-tinting-v1.1'' \<noteq> CACHE_NAME" by (simp add: CACHE_NAME_def)
  note t = activate_purges_stale_buckets
             [where w = ?w and e = "\<lparr>origin = ''https://example.com'', network = (\<lambda>u. Pending)\<rparr>"]
  from t n have 1: "''mainstream-tinting-v1.1'' \<notin> set (caches_keys (snd (activate ?w)))" by blast
  from t d m have 2: "filter app_bucket (caches_keys (snd (activate ?w))) = [CACHE_NAME]" by blast
  from t d have 3: "caches_keys (snd (activate (snd (install
      \<lparr>origin = ''https://example.com'', network = (\<lambda>u. Pending)\<rparr> ?w)))) = [CACHE_NAME]" by blast
  from d m n 1 2 3 show ?thesis by (simp add: CACHE_NAME_def)
qed

text \<open>
  Claim C5 as stated fails on a storage that holds the bucket of an old version only:
  after the activate listener no bucket with the application's prefix is left.
\<close>

theorem activate_without_current_bucket_counterexample:
  "app_bucket ''mainstream-tinting-v1.1'' \<and>
   filter app_bucket (caches_keys (snd (activate
      \<lparr>caches = [(''mainstream-tinting-v1.1'', Map.empty)],
       requests = [], console = [], skip_waiting = False, clients_claimed = False\<rparr>))) = []"
  by (simp add: app_bucket_def startsWith_def caches_keys_def caches_activate CACHE_NAME_def)

section \<open>The strategy handlers on a cache hit and on a network answer\<close>

lemma cache_lookup_hit: "c k = Some r \<Longrightarrow> cache_lookup c k = Resp r"
  by (simp add: cache_lookup_def)

lemma cache_lookup_miss: "c k = None \<Longrightarrow> cache_lookup c k = Undefined"
  by (simp add: cache_lookup_def)

lemma handleCacheFirst_hit:
  "entries s (url rq) = Some c \<Longrightarrow> handleCacheFirst e rq s = (Fulfilled (Resp c), s)"
  by (simp add: handleCacheFirst_def cache_lookup_hit)

lemma handleCacheFirst_miss_fulfilled:
  "entries s (url rq) = None \<Longrightarrow> network e (url rq) = Fulfilled r \<Longrightarrow>
     handleCacheFirst e rq s
       = (Fulfilled (Resp r), store_if_200 rq r (s\<lparr>net_log := net_log s @ [url rq]\<rparr>))"
  by (simp add: handleCacheFirst_def cache_lookup_miss fetch_def)

lemma handleNetworkFirst_fulfilled:
  "network e (url rq) = Fulfilled r \<Longrightarrow>
     handleNetworkFirst e rq s
       = (Fulfilled (Resp r), store_if_200 rq r (s\<lparr>net_log := net_log s @ [url rq]\<rparr>))"
  by (simp add: handleNetworkFirst_def fetch_def)

lemma handleNetworkFirst_rejected_hit:
  "network e (url rq) = Rejected err \<Longrightarrow> entries s (url rq) = Some c \<Longrightarrow>
     handleNetworkFirst e rq s = (Fulfilled (Resp c), s\<lparr>net_log := net_log s @ [url rq]\<rparr>)"
  by (simp add: handleNetworkFirst_def fetch_def cache_lookup_hit)

lemma swr_fulfilled:
  "network e (url rq) = Fulfilled r \<Longrightarrow>
     handleStaleWhileRevalidate e rq s
       = (Fulfilled (case entries s (url rq) of None \<Rightarrow> Resp r | Some c \<Rightarrow> Resp c),
          store_if_200 rq r (s\<lparr>net_log := net_log s @ [url rq]\<rparr>))"
  by (simp add: handleStaleWhileRevalidate_def fetch_def cache_lookup_def split: option.splits)

lemma swr_rejected:
  "network e (url rq) = Rejected err \<Longrightarrow>
     handleStaleWhileRevalidate e rq s
       = (Fulfilled (cache_lookup (entries s) (url rq)), s\<lparr>net_log := net_log s @ [url rq]\<rparr>)"
  by (simp add: handleStaleWhileRevalidate_def fetch_def cache_lookup_def split: option.splits)

lemma swr_pending:
  "network e (url rq) = Pending \<Longrightarrow>
     handleStaleWhileRevalidate e rq s
       = (case entries s (url rq) of None \<Rightarrow> Pending | Some c \<Rightarrow> Fulfilled (Resp c),
          s\<lparr>net_log := net_log s @ [url rq]\<rparr>)"
  by (simp add: handleStaleWhileRevalidate_def fetch_def cache_lookup_def split: option.splits)

lemma entries_store_if_200_other:
  "status r \<noteq> 200 \<Longrightarrow> store_if_200 rq r s = s"
  by (simp add: store_if_200_def)

lemma entries_store_if_200:
  "status r = 200 \<Longrightarrow> entries (store_if_200 rq r s) = (entries s)(url rq \<mapsto> r)"
  by (simp add: store_if_200_def cache_put_def)

text \<open>
  Claim C8. In the CACHE_FIRST handler a cached entry for the request is returned and
  the state is left as it was, the network log included: no fetch is performed. So a
  second call for the same request returns the same response with no network request;
  this also holds when the first call missed the cache and fetched a status 200 response,
  which it stored.
\<close>

theorem cache_first_hit_without_network:
  "(\<forall>c. entries s (url rq) = Some c \<longrightarrow>
      handleCacheFirst e rq s = (Fulfilled (Resp c), s) \<and>
      fst (handleCacheFirst e' rq (snd (handleCacheFirst e rq s))) = fst (handleCacheFirst e rq s) \<and>
      net_log (snd (handleCacheFirst e' rq (snd (handleCacheFirst e rq s)))) = net_log s) \<and>
   (\<forall>r. entries s (url rq) = None \<and> network e (url rq) = Fulfilled r \<and> status r = 200 \<longrightarrow>
      fst (handleCacheFirst e rq s) = Fulfilled (Resp r) \<and>
      handleCacheFirst e' rq (snd (handleCacheFirst e rq s))
        = (Fulfilled (Resp r), snd (handleCacheFirst e rq s)))"
proof (intro conjI allI impI)
  fix c assume h: "entries s (url rq) = Some c"
  show "handleCacheFirst e rq s = (Fulfilled (Resp c), s)"
    using h by (rule handleCacheFirst_hit)
  show "fst (handleCacheFirst e' rq (snd (handleCacheFirst e rq s))) = fst (handleCacheFirst e rq s)"
    using h by (simp add: handleCacheFirst_hit)
  show "net_log (snd (handleCacheFirst e' rq (snd (handleCacheFirst e rq s)))) = net_log s"
    using h by (simp add: handleCacheFirst_hit)
next
  fix r assume h: "entries s (url rq) = None \<and> network e (url rq) = Fulfilled r \<and> status r = 200"
  then have first: "handleCacheFirst e rq s
       = (Fulfilled (Resp r), store_if_200 rq r (s\<lparr>net_log := net_log s @ [url rq]\<rparr>))"
    by (simp add: handleCacheFirst_miss_fulfilled)
  from first show "fst (handleCacheFirst e rq s) = Fulfilled (Resp r)" by simp
  have "entries (store_if_200 rq r (s\<lparr>net_log := net_log s @ [url rq]\<rparr>)) (url rq) = Some r"
    using h by (simp add: entries_store_if_200)
  then show "handleCacheFirst e' rq (snd (handleCacheFirst e rq s))
        = (Fulfilled (Resp r), snd (handleCacheFirst e rq s))"
    unfolding first snd_conv by (rule handleCacheFirst_hit)
qed

text \<open>
  The theorem on the precached stylesheet with the network down, and on a font that is
  not cached yet and that the network delivers with status 200.
\<close>

theorem cache_first_hit_without_network_witness:
  "entries \<lparr>entries = [''https://example.com/style.css'' \<mapsto> \<lparr>status = 200, headers = [], body = ''body{}''\<rparr>],
            net_log = []\<rparr> ''https://example.com/style.css''
     = Some \<lparr>status = 200, headers = [], body = ''body{}''\<rparr> \<and>
   handleCacheFirst \<lparr>origin = ''https://example.com'', network = (\<lambda>u. Rejected ''offline'')\<rparr>
       \<lparr>method = ''GET'', url = ''https://example.com/style.css'', mode = ''no-cors''\<rparr>
       \<lparr>entries = [''https://example.com/style.css'' \<mapsto> \<lparr>status = 200, headers = [], body = ''body{}''\<rparr>],
        net_log = []\<rparr>
     = (Fulfilled (Resp \<lparr>status = 200, headers = [], body = ''body{}''\<rparr>),
        \<lparr>entries = [''https://example.com/style.css'' \<mapsto> \<lparr>status = 200, headers = [], body = ''body{}''\<rparr>],
         net_log = []\<rparr>) \<and>
   handleCacheFirst \<lparr>origin = ''https://example.com'', network = (\<lambda>u. Rejected ''offline'')\<rparr>
       \<lparr>method = ''GET'', url = ''https://example.com/inter.woff2'', mode = ''cors''\<rparr>
       (snd (handleCacheFirst
          \<lparr>origin = ''https://example.com'',
           network = (\<lambda>u. Fulfilled \<lparr>status = 200, headers = [], body = ''wOF2''\<rparr>)\<rparr>
          \<lparr>method = ''GET'', url = ''https://example.com/inter.woff2'', mode = ''cors''\<rparr>
          \<lparr>entries = Map.empty, net_log = []\<rparr>))
     = (Fulfilled (Resp \<lparr>status = 200, headers = [], body = ''wOF2''\<rparr>),
        \<lparr>entries = [''https://example.com/inter.woff2'' \<mapsto> \<lparr>status = 200, headers = [], body = ''wOF2''\<rparr>],
         net_log = [''https://example.com/inter.woff2'']\<rparr>)"
proof -
  let ?r = "\<lparr>status = 200, headers = [], body = ''body{}''\<rparr>"
  let ?s = "\<lparr>entries = [''https://example.com/style.css'' \<mapsto> ?r], net_log = []\<rparr>"
  let ?rq = "\<lparr>method = ''GET'', url = ''https://example.com/style.css'', mode = ''no-cors''\<rparr>"
  let ?off = "\<lparr>origin = ''https://example.com'', network = (\<lambda>u. Rejected ''offline'')\<rparr>"
  let ?f = "\<lparr>status = 200, headers = [], body = ''wOF2''\<rparr>"
  let ?on = "\<lparr>origin = ''https://example.com'', network = (\<lambda>u. Fulfilled ?f)\<rparr>"
  let ?rq2 = "\<lparr>method = ''GET'', url = ''https://example.com/inter.woff2'', mode = ''cors''\<rparr>"
  let ?s2 = "\<lparr>entries = Map.empty, net_log = []\<rparr>"
  have h1: "entries ?s (url ?rq) = Some ?r" by simp
  have h2: "entries ?s2 (url ?rq2) = None \<and> network ?on (url ?rq2) = Fulfilled ?f \<and> status ?f = 200"
    by simp
  have a: "handleCacheFirst ?off ?rq ?s = (Fulfilled (Resp ?r), ?s)"
    using cache_first_hit_without_network [where s = ?s and rq = ?rq and e = ?off] h1 by blast
  have b: "handleCacheFirst ?off ?rq2 (snd (handleCacheFirst ?on ?rq2 ?s2))
             = (Fulfilled (Resp ?f), snd (handleCacheFirst ?on ?rq2 ?s2))"
    using cache_first_hit_without_network [where s = ?s2 and rq = ?rq2 and e = ?on and e' = ?off] h2
    by blast
  have c: "snd (handleCacheFirst ?on ?rq2 ?s2)
             = \<lparr>entries = [''https://example.com/inter.woff2'' \<mapsto> ?f],
                net_log = [''https://example.com/inter.woff2'']\<rparr>"
    by (simp add: handleCacheFirst_miss_fulfilled store_if_200_def cache_put_def)
  from h1 a b c show ?thesis by simp
qed

text \<open>
  Claim C6. In the STALE_WHILE_REVALIDATE handler a cached entry for the request is
  what the handler returns, however the network fetch settles: fulfilled, rejected, or
  never. The handler's promise is fulfilled, so a failed refresh does not reach the
  caller.
\<close>

theorem stale_while_revalidate_returns_cached:
  "entries s (url rq) = Some c \<Longrightarrow>
     fst (handleStaleWhileRevalidate e rq s) = Fulfilled (Resp c)"
proof (cases "network e (url rq)")
  case (Fulfilled r)
  assume "entries s (url rq) = Some c"
  with Fulfilled show ?thesis by (simp add: swr_fulfilled)
next
  case (Rejected err)
  assume "entries s (url rq) = Some c"
  with Rejected show ?thesis by (simp add: swr_rejected cache_lookup_hit)
next
  case Pending
  assume "entries s (url rq) = Some c"
  with Pending show ?thesis by (simp add: swr_pending)
qed

text \<open>
  The theorem on the cached web manifest with a network call that never settles, and
  with a network call that fails.
\<close>

theorem stale_while_revalidate_returns_cached_witness:
  "entries \<lparr>entries = [''https://example.com/site.webmanifest'' \<mapsto> \<lparr>status = 200, headers = [], body = ''{}''\<rparr>],
            net_log = []\<rparr> ''https://example.com/site.webmanifest''
     = Some \<lparr>status = 200, headers = [], body = ''{}''\<rparr> \<and>
   fst (handleStaleWhileRevalidate \<lparr>origin = ''https://example.com'', network = (\<lambda>u. Pending)\<rparr>
       \<lparr>method = ''GET'', url = ''https://example.com/site.webmanifest'', mode = ''cors''\<rparr>
       \<lparr>entries = [''https://example.com/site.webmanifest'' \<mapsto> \<lparr>status = 200, headers = [], body = ''{}''\<rparr>],
        net_log = []\<rparr>)
     = Fulfilled (Resp \<lparr>status = 200, headers = [], body = ''{}''\<rparr>) \<and>
   fst (handleStaleWhileRevalidate \<lparr>origin = ''https://example.com'', network = (\<lambda>u. Rejected ''offline'')\<rparr>
       \<lparr>method = ''GET'', url = ''https://example.com/site.webmanifest'', mode = ''cors''\<rparr>
       \<lparr>entries = [''https://example.com/site.webmanifest'' \<mapsto> \<lparr>status = 200, headers = [], body = ''{}''\<rparr>],
        net_log = []\<rparr>)
     = Fulfilled (Resp \<lparr>status = 200, headers = [], body = ''{}''\<rparr>)"
proof -
  let ?r = "\<lparr>status = 200, headers = [], body = ''{}''\<rparr>"
  let ?s = "\<lparr>entries = [''https://example.com/site.webmanifest'' \<mapsto> ?r], net_log = []\<rparr>"
  let ?rq = "\<lparr>method = ''GET'', url = ''https://example.com/site.webmanifest'', mode = ''cors''\<rparr>"
  have h: "entries ?s (url ?rq) = Some ?r" by simp
  from h stale_while_revalidate_returns_cached
         [OF h, of "\<lparr>origin = ''https://example.com'', network = (\<lambda>u. Pending)\<rparr>"]
       stale_while_revalidate_returns_cached
         [OF h, of "\<lparr>origin = ''https://example.com'', network = (\<lambda>u. Rejected ''offline'')\<rparr>"]
  show ?thesis by simp
qed

text \<open>
  Claim C7. In the NETWORK_FIRST handler a network response with status 200 is stored
  in the bucket under the request's URL and is the response returned, whatever the
  bucket held before; when the network fails and the bucket has an entry for the
  request, that entry is returned and the bucket is unchanged.
\<close>

theorem network_first_fresh_then_cached:
  "(\<forall>r. network e (url rq) = Fulfilled r \<and> status r = 200 \<longrightarrow>
      fst (handleNetworkFirst e rq s) = Fulfilled (Resp r) \<and>
      entries (snd (handleNetworkFirst e rq s)) = (entries s)(url rq \<mapsto> r) \<and>
      cache_lookup (entries (snd (handleNetworkFirst e rq s))) (url rq) = Resp r) \<and>
   (\<forall>err c. network e (url rq) = Rejected err \<and> entries s (url rq) = Some c \<longrightarrow>
      fst (handleNetworkFirst e rq s) = Fulfilled (Resp c) \<and>
      entries (snd (handleNetworkFirst e rq s)) = entries s)"
proof (intro conjI allI impI)
  fix r assume h: "network e (url rq) = Fulfilled r \<and> status r = 200"
  then have run: "handleNetworkFirst e rq s
       = (Fulfilled (Resp r), store_if_200 rq r (s\<lparr>net_log := net_log s @ [url rq]\<rparr>))"
    by (simp add: handleNetworkFirst_fulfilled)
  from run show "fst (handleNetworkFirst e rq s) = Fulfilled (Resp r)" by simp
  from run h show stored: "entries (snd (handleNetworkFirst e rq s)) = (entries s)(url rq \<mapsto> r)"
    by (simp add: entries_store_if_200)
  show "cache_lookup (entries (snd (handleNetworkFirst e rq s))) (url rq) = Resp r"
    unfolding stored by (simp add: cache_lookup_def)
next
  fix err c assume h: "network e (url rq) = Rejected err \<and> entries s (url rq) = Some c"
  then have run: "handleNetworkFirst e rq s
       = (Fulfilled (Resp c), s\<lparr>net_log := net_log s @ [url rq]\<rparr>)"
    by (simp add: handleNetworkFirst_rejected_hit)
  from run show "fst (handleNetworkFirst e rq s) = Fulfilled (Resp c)" by simp
  from run show "entries (snd (handleNetworkFirst e rq s)) = entries s" by simp
qed

text \<open>
  The theorem on a page whose cached copy is old: with the network up the fresh copy is
  returned and replaces the old one; with the network down the old copy is returned.
\<close>

theorem network_first_fresh_then_cached_witness:
  "status \<lparr>status = 200, headers = [], body = ''new''\<rparr> = 200 \<and>
   fst (handleNetworkFirst
          \<lparr>origin = ''https://example.com'',
           network = (\<lambda>u. Fulfilled \<lparr>status = 200, headers = [], body = ''new''\<rparr>)\<rparr>
          \<lparr>method = ''GET'', url = ''https://example.com/about.html'', mode = ''navigate''\<rparr>
          \<lparr>entries = [''https://example.com/about.html'' \<mapsto> \<lparr>status = 200, headers = [], body = ''old''\<rparr>],
           net_log = []\<rparr>)
     = Fulfilled (Resp \<lparr>status = 200, headers = [], body = ''new''\<rparr>) \<and>
   cache_lookup (entries (snd (handleNetworkFirst
          \<lparr>origin = ''https://example.com'',
           network = (\<lambda>u. Fulfilled \<lparr>status = 200, headers = [], body = ''new''\<rparr>)\<rparr>
          \<lparr>method = ''GET'', url = ''https://example.com/about.html'', mode = ''navigate''\<rparr>
          \<lparr>entries = [''https://example.com/about.html'' \<mapsto> \<lparr>status = 200, headers = [], body = ''old''\<rparr>],
           net_log = []\<rparr>))) ''https://example.com/about.html''
     = Resp \<lparr>status = 200, headers = [], body = ''new''\<rparr> \<and>
   fst (handleNetworkFirst
          \<lparr>origin = ''https://example.com'', network = (\<lambda>u. Rejected ''offline'')\<rparr>
          \<lparr>method = ''GET'', url = ''https://example.com/about.html'', mode = ''navigate''\<rparr>
          \<lparr>entries = [''https://example.com/about.html'' \<mapsto> \<lparr>status = 200, headers = [], body = ''old''\<rparr>],
           net_log = []\<rparr>)
     = Fulfilled (Resp \<lparr>status = 200, headers = [], body = ''old''\<rparr>)"
proof -
  let ?new = "\<lparr>status = 200, headers = [], body = ''new''\<rparr>"
  let ?old = "\<lparr>status = 200, headers = [], body = ''old''\<rparr>"
  let ?on = "\<lparr>origin = ''https://example.com'', network = (\<lambda>u. Fulfilled ?new)\<rparr>"
  let ?off = "\<lparr>origin = ''https://example.com'', network = (\<lambda>u. Rejected ''offline'')\<rparr>"
  let ?rq = "\<lparr>method = ''GET'', url = ''https://example.com/about.html'', mode = ''navigate''\<rparr>"
  let ?s = "\<lparr>entries = [''https://example.com/about.html'' \<mapsto> ?old], net_log = []\<rparr>"
  have h1: "network ?on (url ?rq) = Fulfilled ?new \<and> status ?new = 200" by simp
  have h2: "network ?off (url ?rq) = Rejected ''offline'' \<and> entries ?s (url ?rq) = Some ?old" by simp
  have a: "fst (handleNetworkFirst ?on ?rq ?s) = Fulfilled (Resp ?new) \<and>
           cache_lookup (entries (snd (handleNetworkFirst ?on ?rq ?s))) (url ?rq) = Resp ?new"
    using network_first_fresh_then_cached [where e = ?on and rq = ?rq and s = ?s] h1 by blast
  have b: "fst (handleNetworkFirst ?off ?rq ?s) = Fulfilled (Resp ?old)"
    using network_first_fresh_then_cached [where e = ?off and rq = ?rq and s = ?s] h2 by blast
  from a b show ?thesis by simp
qed

text \<open>
  Claim C10. When the network fetch is fulfilled with a status other than 200, each of
  the three handlers leaves the bucket as it was, and the response is returned to the
  caller: by the CACHE_FIRST handler when the request was not cached (otherwise it does
  not fetch), by the NETWORK_FIRST handler always, by the STALE_WHILE_REVALIDATE handler
  when the request was not cached (otherwise it returns the cached entry).
\<close>

theorem other_status_is_not_stored:
  "network e (url rq) = Fulfilled r \<Longrightarrow> status r \<noteq> 200 \<Longrightarrow>
     entries (snd (handleCacheFirst e rq s)) = entries s \<and>
     entries (snd (handleNetworkFirst e rq s)) = entries s \<and>
     entries (snd (handleStaleWhileRevalidate e rq s)) = entries s \<and>
     (entries s (url rq) = None \<longrightarrow> fst (handleCacheFirst e rq s) = Fulfilled (Resp r)) \<and>
     fst (handleNetworkFirst e rq s) = Fulfilled (Resp r) \<and>
     (entries s (url rq) = None \<longrightarrow> fst (handleStaleWhileRevalidate e rq s) = Fulfilled (Resp r)) \<and>
     (\<forall>c. entries s (url rq) = Some c \<longrightarrow>
        fst (handleStaleWhileRevalidate e rq s) = Fulfilled (Resp c))"
proof -
  assume n: "network e (url rq) = Fulfilled r" and st: "status r \<noteq> 200"
  have cf: "entries (snd (handleCacheFirst e rq s)) = entries s"
  proof (cases "entries s (url rq)")
    case None
    with n st show ?thesis
      by (simp add: handleCacheFirst_miss_fulfilled entries_store_if_200_other)
  next
    case (Some c)
    then show ?thesis by (simp add: handleCacheFirst_hit)
  qed
  have nf: "handleNetworkFirst e rq s = (Fulfilled (Resp r), s\<lparr>net_log := net_log s @ [url rq]\<rparr>)"
    using n st by (simp add: handleNetworkFirst_fulfilled entries_store_if_200_other)
  have swr: "handleStaleWhileRevalidate e rq s
       = (Fulfilled (case entries s (url rq) of None \<Rightarrow> Resp r | Some c \<Rightarrow> Resp c),
          s\<lparr>net_log := net_log s @ [url rq]\<rparr>)"
    using n st by (simp add: swr_fulfilled entries_store_if_200_other)
  have cfr: "entries s (url rq) = None \<longrightarrow> fst (handleCacheFirst e rq s) = Fulfilled (Resp r)"
    using n by (simp add: handleCacheFirst_miss_fulfilled)
  from cf cfr show ?thesis unfolding nf swr by simp
qed

text \<open>
  The theorem on a request that the network answers with status 404, with an empty
  bucket.
\<close>

theorem other_status_is_not_stored_witness:
  "status \<lparr>status = 404, headers = [], body = ''Not Found''\<rparr> \<noteq> 200 \<and>
   entries (snd (handleCacheFirst
      \<lparr>origin = ''https://example.com'',
       network = (\<lambda>u. Fulfilled \<lparr>status = 404, headers = [], body = ''Not Found''\<rparr>)\<rparr>
      \<lparr>method = ''GET'', url = ''https://example.com/missing.png'', mode = ''no-cors''\<rparr>
      \<lparr>entries = Map.empty, net_log = []\<rparr>)) = Map.empty \<and>
   entries (snd (handleNetworkFirst
      \<lparr>origin = ''https://example.com'',
       network = (\<lambda>u. Fulfilled \<lparr>status = 404, headers = [], body = ''Not Found''\<rparr>)\<rparr>
      \<lparr>method = ''GET'', url = ''https://example.com/missing.png'', mode = ''no-cors''\<rparr>
      \<lparr>entries = Map.empty, net_log = []\<rparr>)) = Map.empty \<and>
   entries (snd (handleStaleWhileRevalidate
      \<lparr>origin = ''https://example.com'',
       network = (\<lambda>u. Fulfilled \<lparr>status = 404, headers = [], body = ''Not Found''\<rparr>)\<rparr>
      \<lparr>method = ''GET'', url = ''https://example.com/missing.png'', mode = ''no-cors''\<rparr>
      \<lparr>entries = Map.empty, net_log = []\<rparr>)) = Map.empty \<and>
   fst (handleCacheFirst
      \<lparr>origin = ''https://example.com'',
       network = (\<lambda>u. Fulfilled \<lparr>status = 404, headers = [], body = ''Not Found''\<rparr>)\<rparr>
      \<lparr>method = ''GET'', url = ''https://example.com/missing.png'', mode = ''no-cors''\<rparr>
      \<lparr>entries = Map.empty, net_log = []\<rparr>)
     = Fulfilled (Resp \<lparr>status = 404, headers = [], body = ''Not Found''\<rparr>) \<and>
   fst (handleNetworkFirst
      \<lparr>origin = ''https://example.com'',
       network = (\<lambda>u. Fulfilled \<lparr>status = 404, headers = [], body = ''Not Found''\<rparr>)\<rparr>
      \<lparr>method = ''GET'', url = ''https://example.com/missing.png'', mode = ''no-cors''\<rparr>
      \<lparr>entries = Map.empty, net_log = []\<rparr>)
     = Fulfilled (Resp \<lparr>status = 404, headers = [], body = ''Not Found''\<rparr>) \<and>
   fst (handleStaleWhileRevalidate
      \<lparr>origin = ''https://example.com'',
       network = (\<lambda>u. Fulfilled \<lparr>status = 404, headers = [], body = ''Not Found''\<rparr>)\<rparr>
      \<lparr>method = ''GET'', url = ''https://example.com/missing.png'', mode = ''no-cors''\<rparr>
      \<lparr>entries = Map.empty, net_log = []\<rparr>)
     = Fulfilled (Resp \<lparr>status = 404, headers = [], body = ''Not Found''\<rparr>)"
proof -
  let ?r = "\<lparr>status = 404, headers = [], body = ''Not Found''\<rparr>"
  let ?e = "\<lparr>origin = ''https://example.com'', network = (\<lambda>u. Fulfilled ?r)\<rparr>"
  let ?rq = "\<lparr>method = ''GET'', url = ''https://example.com/missing.png'', mode = ''no-cors''\<rparr>"
  let ?s = "\<lparr>entries = Map.empty, net_log = []\<rparr>"
  have h1: "network ?e (url ?rq) = Fulfilled ?r" by simp
  have h2: "status ?r \<noteq> 200" by simp
  have h3: "entries ?s (url ?rq) = None" by simp
  from other_status_is_not_stored [OF h1 h2, of ?s] h3
  have "entries (snd (handleCacheFirst ?e ?rq ?s)) = entries ?s"
    and "entries (snd (handleNetworkFirst ?e ?rq ?s)) = entries ?s"
    and "entries (snd (handleStaleWhileRevalidate ?e ?rq ?s)) = entries ?s"
    and "fst (handleCacheFirst ?e ?rq ?s) = Fulfilled (Resp ?r)"
    and "fst (handleNetworkFirst ?e ?rq ?s) = Fulfilled (Resp ?r)"
    and "fst (handleStaleWhileRevalidate ?e ?rq ?s) = Fulfilled (Resp ?r)"
    by blast+
  with h2 show ?thesis by simp
qed

section \<open>The handlers when the network fails and the request is not cached\<close>

lemma on_network_failure_navigate:
  "mode rq = ''navigate'' \<Longrightarrow>
     on_network_failure e rq c = Fulfilled (cache_lookup c (path_key e OFFLINE_PAGE))"
  by (simp add: on_network_failure_def js_or_def cache_match_def)

lemma on_network_failure_other:
  "mode rq \<noteq> ''navigate'' \<Longrightarrow> on_network_failure e rq c = Fulfilled (Resp network_error)"
  by (simp add: on_network_failure_def)

lemma handleCacheFirst_miss_rejected:
  "entries s (url rq) = None \<Longrightarrow> network e (url rq) = Rejected err \<Longrightarrow>
     fst (handleCacheFirst e rq s) = on_network_failure e rq (entries s)"
  by (simp add: handleCacheFirst_def cache_lookup_miss fetch_def)

lemma handleNetworkFirst_miss_rejected:
  "entries s (url rq) = None \<Longrightarrow> network e (url rq) = Rejected err \<Longrightarrow>
     fst (handleNetworkFirst e rq s) = on_network_failure e rq (entries s)"
  by (simp add: handleNetworkFirst_def cache_lookup_miss fetch_def)

lemma swr_miss_rejected:
  "entries s (url rq) = None \<Longrightarrow> network e (url rq) = Rejected err \<Longrightarrow>
     fst (handleStaleWhileRevalidate e rq s) = Fulfilled Undefined"
  by (simp add: swr_rejected cache_lookup_miss)

text \<open>
  Claim C3 at a failing input. The network is down, the request is a navigation to a
  page that is not cached, and the bucket holds the home page but not the offline page
  (which is not in the precache manifest). The claim has the handler return the cached
  home page; the CACHE_FIRST and the NETWORK_FIRST handler are fulfilled with
  \<^verbatim>\<open>undefined\<close>. With an empty bucket, where the claim has a synthesized status 200
  page, they are fulfilled with \<^verbatim>\<open>undefined\<close> as well: the first operand of
  \<^verbatim>\<open>||\<close> is a promise object, which is truthy, so the other two are never reached.
\<close>

theorem offline_navigation_skips_home_page:
  "fst (handleNetworkFirst \<lparr>origin = ''https://example.com'', network = (\<lambda>u. Rejected ''offline'')\<rparr>
          \<lparr>method = ''GET'', url = ''https://example.com/pricing.html'', mode = ''navigate''\<rparr>
          \<lparr>entries = [''https://example.com/index.html'' \<mapsto> \<lparr>status = 200, headers = [], body = ''home''\<rparr>],
           net_log = []\<rparr>)
     = Fulfilled Undefined \<and>
   fst (handleCacheFirst \<lparr>origin = ''https://example.com'', network = (\<lambda>u. Rejected ''offline'')\<rparr>
          \<lparr>method = ''GET'', url = ''https://example.com/brochure.png'', mode = ''navigate''\<rparr>
          \<lparr>entries = [''https://example.com/index.html'' \<mapsto> \<lparr>status = 200, headers = [], body = ''home''\<rparr>],
           net_log = []\<rparr>)
     = Fulfilled Undefined \<and>
   fst (handleNetworkFirst \<lparr>origin = ''https://example.com'', network = (\<lambda>u. Rejected ''offline'')\<rparr>
          \<lparr>method = ''GET'', url = ''https://example.com/pricing.html'', mode = ''navigate''\<rparr>
          \<lparr>entries = Map.empty, net_log = []\<rparr>)
     = Fulfilled Undefined \<and>
   fst (handleCacheFirst \<lparr>origin = ''https://example.com'', network = (\<lambda>u. Rejected ''offline'')\<rparr>
          \<lparr>method = ''GET'', url = ''https://example.com/brochure.png'', mode = ''navigate''\<rparr>
          \<lparr>entries = Map.empty, net_log = []\<rparr>)
     = Fulfilled Undefined"
  by (simp add: handleNetworkFirst_miss_rejected handleCacheFirst_miss_rejected
        on_network_failure_navigate cache_lookup_def path_key_def OFFLINE_PAGE_def)

text \<open>
  Claim C4 at a failing input. In the STALE_WHILE_REVALIDATE handler, with the network
  down and nothing cached for the request, the claim has a status 408 response for a
  request that is not a navigation and the cached offline page for a navigation; the
  handler is fulfilled with \<^verbatim>\<open>undefined\<close> in both cases, since the rejection was already
  turned into \<^verbatim>\<open>undefined\<close> by the \<^verbatim>\<open>.catch\<close> of the background fetch.
\<close>

theorem stale_while_revalidate_offline_miss_is_undefined:
  "fst (handleStaleWhileRevalidate
          \<lparr>origin = ''https://example.com'', network = (\<lambda>u. Rejected ''offline'')\<rparr>
          \<lparr>method = ''GET'', url = ''https://example.com/site.webmanifest'', mode = ''cors''\<rparr>
          \<lparr>entries = Map.empty, net_log = []\<rparr>)
     = Fulfilled Undefined \<and>
   fst (handleStaleWhileRevalidate
          \<lparr>origin = ''https://example.com'', network = (\<lambda>u. Rejected ''offline'')\<rparr>
          \<lparr>method = ''GET'', url = ''https://example.com/contact'', mode = ''navigate''\<rparr>
          \<lparr>entries = [''https://example.com/offline.html'' \<mapsto> \<lparr>status = 200, headers = [], body = ''offline''\<rparr>],
           net_log = []\<rparr>)
     = Fulfilled Undefined"
  by (simp add: swr_miss_rejected)

section \<open>Install\<close>

lemma install_never_rejects: "fst (install e w) \<noteq> Rejected err"
proof -
  let ?w1 = "console_log ''Service Worker: Caching essential files''
               (caches_open CACHE_NAME (console_log ''Service Worker: Installing...'' w))"
  obtain p w2 where r: "cache_addAll e CACHE_NAME CACHE_FILES ?w1 = (p, w2)"
    by (cases "cache_addAll e CACHE_NAME CACHE_FILES ?w1")
  then show ?thesis by (cases p) (simp_all add: install_def)
qed

lemma cache_addAll_rejects:
  "list_ex (\<lambda>k. add_failed (network e k)) (map (path_key e) urls) \<Longrightarrow>
     cache_addAll e name urls w = (Rejected ''TypeError'', w\<lparr>requests := requests w @ map (path_key e) urls\<rparr>)"
  by (simp add: cache_addAll_def Let_def)

lemma install_when_precache_fails:
  assumes "list_ex (\<lambda>k. add_failed (network e k)) (map (path_key e) CACHE_FILES)"
  shows "fst (install e w) = Fulfilled Undefined"
    and "waitUntil_install (fst (install e w)) = Installed"
    and "last (console (snd (install e w))) = ''Service Worker: Installation failed''"
  using assms by (simp_all add: install_def cache_addAll_rejects console_log_def)

text \<open>
  Claim C2 at a failing input. The network is down, so no URL of the precache manifest
  can be fetched, and \<^verbatim>\<open>cache.addAll\<close> rejects. The claim has the promise passed to
  \<^verbatim>\<open>event.waitUntil\<close> reject and the install step fail; the listener's \<^verbatim>\<open>.catch\<close> logs
  \<^verbatim>\<open>Installation failed\<close> and returns, so the promise is fulfilled and the browser
  takes the worker as installed, with an empty bucket.
\<close>

theorem install_swallows_precache_failure:
  "list_ex (\<lambda>k. add_failed (network \<lparr>origin = ''https://example.com'', network = (\<lambda>u. Rejected ''offline'')\<rparr> k))
     (map (path_key \<lparr>origin = ''https://example.com'', network = (\<lambda>u. Rejected ''offline'')\<rparr>) CACHE_FILES) \<and>
   fst (install \<lparr>origin = ''https://example.com'', network = (\<lambda>u. Rejected ''offline'')\<rparr>
          \<lparr>caches = [], requests = [], console = [], skip_waiting = False, clients_claimed = False\<rparr>)
     = Fulfilled Undefined \<and>
   waitUntil_install
     (fst (install \<lparr>origin = ''https://example.com'', network = (\<lambda>u. Rejected ''offline'')\<rparr>
          \<lparr>caches = [], requests = [], console = [], skip_waiting = False, clients_claimed = False\<rparr>))
     = Installed \<and>
   console (snd (install \<lparr>origin = ''https://example.com'', network = (\<lambda>u. Rejected ''offline'')\<rparr>
          \<lparr>caches = [], requests = [], console = [], skip_waiting = False, clients_claimed = False\<rparr>))
     = [''Service Worker: Installing...'', ''Service Worker: Caching essential files'',
        ''Service Worker: Installation failed''] \<and>
   caches (snd (install \<lparr>origin = ''https://example.com'', network = (\<lambda>u. Rejected ''offline'')\<rparr>
          \<lparr>caches = [], requests = [], console = [], skip_waiting = False, clients_claimed = False\<rparr>))
     = [(CACHE_NAME, Map.empty)]"
proof -
  let ?e = "\<lparr>origin = ''https://example.com'', network = (\<lambda>u. Rejected ''offline'')\<rparr>"
  have f: "list_ex (\<lambda>k. add_failed (network ?e k)) (map (path_key ?e) CACHE_FILES)"
    by (simp add: CACHE_FILES_def)
  from f show ?thesis
    by (simp add: install_def cache_addAll_rejects console_log_def caches_open_def caches_keys_def)
qed

section \<open>The same-origin filter\<close>

lemma on_fetch_pass_through:
  "method rq \<noteq> ''GET'' \<or> \<not> startsWith (url rq) (origin e) \<Longrightarrow> on_fetch e rq w = (None, w)"
  by (auto simp: on_fetch_def)

text \<open>
  Claim C9 at a failing input. The worker's origin is \<^verbatim>\<open>https://example.com\<close>; the
  request is a GET for a script on another port of the host, so of another origin. The
  claim has the listener pass it through and never store it; the listener compares by
  string prefix, which the URL satisfies, so it answers the request with the
  CACHE_FIRST handler and the response is written to the bucket. The same happens for a
  host whose name starts with the worker's host name.
\<close>

theorem cross_origin_request_is_intercepted:
  "url_origin ''https://example.com:8443/app.js'' = ''https://example.com:8443'' \<and>
   url_origin ''https://example.com:8443/app.js''
     \<noteq> origin \<lparr>origin = ''https://example.com'',
                 network = (\<lambda>u. Fulfilled \<lparr>status = 200, headers = [], body = ''js''\<rparr>)\<rparr> \<and>
   startsWith ''https://example.com:8443/app.js'' ''https://example.com'' \<and>
   fst (on_fetch
          \<lparr>origin = ''https://example.com'',
           network = (\<lambda>u. Fulfilled \<lparr>status = 200, headers = [], body = ''js''\<rparr>)\<rparr>
          \<lparr>method = ''GET'', url = ''https://example.com:8443/app.js'', mode = ''cors''\<rparr>
          \<lparr>caches = [], requests = [], console = [], skip_waiting = False, clients_claimed = False\<rparr>)
     = Some (Fulfilled (Resp \<lparr>status = 200, headers = [], body = ''js''\<rparr>)) \<and>
   bucket_of CACHE_NAME (snd (on_fetch
          \<lparr>origin = ''https://example.com'',
           network = (\<lambda>u. Fulfilled \<lparr>status = 200, headers = [], body = ''js''\<rparr>)\<rparr>
          \<lparr>method = ''GET'', url = ''https://example.com:8443/app.js'', mode = ''cors''\<rparr>
          \<lparr>caches = [], requests = [], console = [], skip_waiting = False, clients_claimed = False\<rparr>))
       ''https://example.com:8443/app.js''
     = Some \<lparr>status = 200, headers = [], body = ''js''\<rparr> \<and>
   url_origin ''https://example.com.evil.net/app.js'' = ''https://example.com.evil.net'' \<and>
   fst (on_fetch
          \<lparr>origin = ''https://example.com'',
           network = (\<lambda>u. Fulfilled \<lparr>status = 200, headers = [], body = ''js''\<rparr>)\<rparr>
          \<lparr>method = ''GET'', url = ''https://example.com.evil.net/app.js'', mode = ''cors''\<rparr>
          \<lparr>caches = [], requests = [], console = [], skip_waiting = False, clients_claimed = False\<rparr>)
     = Some (Fulfilled (Resp \<lparr>status = 200, headers = [], body = ''js''\<rparr>))"
proof -
  let ?r = "\<lparr>status = 200, headers = [], body = ''js''\<rparr>"
  let ?e = "\<lparr>origin = ''https://example.com'', network = (\<lambda>u. Fulfilled ?r)\<rparr>"
  let ?w = "\<lparr>caches = [], requests = [], console = [], skip_waiting = False, clients_claimed = False\<rparr>"
  let ?p = "\<lparr>method = ''GET'', url = ''https://example.com:8443/app.js'', mode = ''cors''\<rparr>"
  let ?q = "\<lparr>method = ''GET'', url = ''https://example.com.evil.net/app.js'', mode = ''cors''\<rparr>"
  have o: "url_origin ''https://example.com:8443/app.js'' = ''https://example.com:8443''"
          "url_origin ''https://example.com.evil.net/app.js'' = ''https://example.com.evil.net''"
    by (simp_all add: url_origin_def url_rest_def)
  have sp: "strategy_of ?p = CACHE_FIRST" and sq: "strategy_of ?q = CACHE_FIRST"
    by (simp_all add: strategy_of_def classify_def url_pathname_def url_rest_def endsWith_def
          match_ext_def)
  have hp: "handleRequest ?e ?p CACHE_FIRST ?w
              = (Fulfilled (Resp ?r),
                 ?w\<lparr>caches := [(CACHE_NAME, [''https://example.com:8443/app.js'' \<mapsto> ?r])],
                     requests := [''https://example.com:8443/app.js'']\<rparr>)"
    by (simp add: handleRequest_def run_handler_def caches_open_def caches_keys_def bucket_of_def
          handleCacheFirst_miss_fulfilled store_if_200_def cache_put_def set_bucket_def)
  have hq: "fst (handleRequest ?e ?q CACHE_FIRST ?w) = Fulfilled (Resp ?r)"
    by (simp add: handleRequest_def run_handler_def caches_open_def caches_keys_def bucket_of_def
          handleCacheFirst_miss_fulfilled store_if_200_def cache_put_def set_bucket_def)
  have fp: "on_fetch ?e ?p ?w = (Some (fst (handleRequest ?e ?p CACHE_FIRST ?w)),
                                 snd (handleRequest ?e ?p CACHE_FIRST ?w))"
    by (simp add: on_fetch_def startsWith_def sp Let_def split: prod.splits)
  have fq: "on_fetch ?e ?q ?w = (Some (fst (handleRequest ?e ?q CACHE_FIRST ?w)),
                                 snd (handleRequest ?e ?q CACHE_FIRST ?w))"
    by (simp add: on_fetch_def startsWith_def sq Let_def split: prod.splits)
  show ?thesis
    unfolding fp fq hp using o hq by (simp add: bucket_of_def startsWith_def)
qed

end
